theory Spec2Isabelle
  imports Main
begin

section \<open>Python values, exceptions and dictionaries\<close>

text \<open>
  The scalar values that travel through \<^verbatim>\<open>sql_parser.py\<close>: \<^verbatim>\<open>None\<close>, strings,
  \<^verbatim>\<open>pathlib.Path\<close> objects (the loop variable of \<^verbatim>\<open>rglob\<close>) and integers.
\<close>

datatype pyval = PNone | PStr string | PPath string | PInt int

text \<open>Python truth value of a scalar, as tested by \<^verbatim>\<open>if v\<close>.\<close>

fun truthy :: "pyval \<Rightarrow> bool" where
  "truthy PNone = False"
| "truthy (PStr s) = (s \<noteq> [])"
| "truthy (PPath p) = True"
| "truthy (PInt i) = (i \<noteq> 0)"

text \<open>
  Exceptions are values. \<open>PyException msg\<close> is \<^verbatim>\<open>Exception(msg)\<close>; \<open>Raised cls msg\<close> is any
  other exception object, such as one raised by the external extractor or by file I/O.
\<close>

datatype exn = PyException string | KeyError string | ValueError string | Raised string string

definition and_then :: "exn + 'a \<Rightarrow> ('a \<Rightarrow> exn + 'b) \<Rightarrow> exn + 'b" where
  "and_then m f = (case m of Inl e \<Rightarrow> Inl e | Inr x \<Rightarrow> f x)"

text \<open>
  A \<^verbatim>\<open>dict\<close> keeps insertion order: an association list. \<open>setitem\<close> is \<^verbatim>\<open>d[k] = v\<close>
  (an existing key keeps its position, a new key goes last), \<open>getitem\<close> is \<^verbatim>\<open>d[k]\<close>
  (raises \<^verbatim>\<open>KeyError\<close>), \<open>get_or_none\<close> is \<^verbatim>\<open>d.get(k)\<close> on an optional entry.
\<close>

type_synonym 'v dict = "(string \<times> 'v) list"

fun setitem :: "'v dict \<Rightarrow> string \<Rightarrow> 'v \<Rightarrow> 'v dict" where
  "setitem [] k v = [(k, v)]"
| "setitem ((k', v') # d) k v = (if k' = k then (k, v) # d else (k', v') # setitem d k v)"

definition getitem :: "'v dict \<Rightarrow> string \<Rightarrow> exn + 'v" where
  "getitem d k = (case map_of d k of None \<Rightarrow> Inl (KeyError k) | Some v \<Rightarrow> Inr v)"

definition get_or_none :: "pyval option \<Rightarrow> pyval" where
  "get_or_none e = (case e of None \<Rightarrow> PNone | Some v \<Rightarrow> v)"

section \<open>The lineage result of the external extractor\<close>

text \<open>
  A lineage item is a dict with the keys \<^verbatim>\<open>schema, table, column, expression, filter_type,
  filter, message\<close>. In the records below an optional field is \<open>None\<close> when the key is
  absent from the dict.
\<close>

type_synonym lineage_item = "pyval dict"

record column_details =
  cd_data_type :: "pyval option"
  cd_lineage :: "lineage_item list option"

datatype columns_val = ColumnsNone | Columns "column_details dict"

record table_details =
  td_schema :: "pyval option"
  td_table :: "pyval option"
  td_columns :: "columns_val option"

datatype lineage_result = LineageNone | Lineage "table_details dict"

fun truthy_columns :: "columns_val \<Rightarrow> bool" where
  "truthy_columns ColumnsNone = False"
| "truthy_columns (Columns cs) = (cs \<noteq> [])"

fun columns_items :: "columns_val \<Rightarrow> column_details dict" where
  "columns_items ColumnsNone = []"
| "columns_items (Columns cs) = cs"

fun truthy_lineage :: "lineage_result \<Rightarrow> bool" where
  "truthy_lineage LineageNone = False"
| "truthy_lineage (Lineage ts) = (ts \<noteq> [])"

fun lineage_items :: "lineage_result \<Rightarrow> table_details dict" where
  "lineage_items LineageNone = []"
| "lineage_items (Lineage ts) = ts"

section \<open>Row objects on a heap\<close>

text \<open>
  The rows are mutable dicts, and \<^verbatim>\<open>lineage_row = row\<close> binds a second name to the same
  object. The store maps an address to the dict that lives there; \<open>rows\<close> is the Python
  list \<^verbatim>\<open>rows\<close>, a list of references.
\<close>

record st =
  heap :: "nat \<Rightarrow> pyval dict"
  next_addr :: nat
  rows :: "nat list"

definition empty_st :: st where
  "empty_st = \<lparr>heap = (\<lambda>_. []), next_addr = 0, rows = []\<rparr>"

text \<open>\<^verbatim>\<open>row = {}\<close>\<close>

definition new_dict :: "st \<Rightarrow> nat \<times> st" where
  "new_dict s = (next_addr s, s\<lparr>heap := (heap s)(next_addr s := []), next_addr := Suc (next_addr s)\<rparr>)"

text \<open>\<^verbatim>\<open>row[k] = v\<close>\<close>

definition store :: "nat \<Rightarrow> string \<Rightarrow> pyval \<Rightarrow> st \<Rightarrow> st" where
  "store r k v s = s\<lparr>heap := (heap s)(r := setitem (heap s r) k v)\<rparr>"

text \<open>\<^verbatim>\<open>row[k] = item[src]\<close>\<close>

definition copy_item :: "nat \<Rightarrow> string \<Rightarrow> lineage_item \<Rightarrow> string \<Rightarrow> st \<Rightarrow> exn + st" where
  "copy_item r k item src s = (case getitem item src of Inl e \<Rightarrow> Inl e | Inr v \<Rightarrow> Inr (store r k v s))"

text \<open>\<^verbatim>\<open>rows.append(row)\<close>\<close>

definition append_row :: "nat \<Rightarrow> st \<Rightarrow> st" where
  "append_row r s = s\<lparr>rows := rows s @ [r]\<rparr>"

text \<open>The list of dicts that \<^verbatim>\<open>rows\<close> denotes.\<close>

definition deref :: "st \<Rightarrow> pyval dict list" where
  "deref s = map (heap s) (rows s)"

section \<open>Data frames\<close>

text \<open>
  A \<^verbatim>\<open>pandas.DataFrame\<close> with object columns: the column labels and the rows, each row
  holding one cell per column. A cell with no value is \<open>NaN\<close>.
\<close>

datatype cell = NaN | Val pyval

record frame =
  columns :: "string list"
  data :: "cell list list"

fun union_keys :: "string list \<Rightarrow> string list \<Rightarrow> string list" where
  "union_keys acc [] = acc"
| "union_keys acc (k # ks) = union_keys (if k \<in> set acc then acc else acc @ [k]) ks"

fun union_all :: "string list \<Rightarrow> string list list \<Rightarrow> string list" where
  "union_all acc [] = acc"
| "union_all acc (ks # kss) = union_all (union_keys acc ks) kss"

definition cell_of :: "pyval dict \<Rightarrow> string \<Rightarrow> cell" where
  "cell_of d c = (case map_of d c of None \<Rightarrow> NaN | Some v \<Rightarrow> Val v)"

text \<open>\<^verbatim>\<open>pd.DataFrame(rows)\<close> for a list of dicts: the columns are the keys in order of first
  appearance.\<close>

definition DataFrame :: "pyval dict list \<Rightarrow> frame" where
  "DataFrame ds =
     (let cols = union_all [] (map (map fst) ds)
      in \<lparr>columns = cols, data = map (\<lambda>d. map (cell_of d) cols) ds\<rparr>)"

definition reindex :: "string list \<Rightarrow> string list \<Rightarrow> cell list \<Rightarrow> cell list" where
  "reindex src dst r = map (\<lambda>c. case map_of (zip src r) c of None \<Rightarrow> NaN | Some x \<Rightarrow> x) dst"

text \<open>\<^verbatim>\<open>pd.concat(frames, ignore_index=True)\<close>: the union of the columns in order of first
  appearance, the rows of every frame in order; an empty list of frames is an error.\<close>

definition pd_concat :: "frame list \<Rightarrow> exn + frame" where
  "pd_concat fs =
     (if fs = [] then Inl (ValueError ''No objects to concatenate'')
      else let cols = union_all [] (map columns fs)
           in Inr \<lparr>columns = cols,
                   data = concat (map (\<lambda>f. map (reindex (columns f) cols) (data f)) fs)\<rparr>)"

text \<open>The value of a row of a frame in a named column.\<close>

definition cell_at :: "frame \<Rightarrow> cell list \<Rightarrow> string \<Rightarrow> cell option" where
  "cell_at df r c = map_of (zip (columns df) r) c"

text \<open>\<^verbatim>\<open>df.to_csv(path, index=...)\<close>: what is written, as the header fields and the
  records. With \<^verbatim>\<open>index=True\<close> a leading unnamed column holds the row number.\<close>

record csv_file =
  header :: "string list"
  records :: "cell list list"

definition to_csv :: "bool \<Rightarrow> frame \<Rightarrow> csv_file" where
  "to_csv index df =
     (if index
      then \<lparr>header = [] # columns df,
            records = map (\<lambda>(i, r). Val (PInt (int i)) # r) (zip [0..<length (data df)] (data df))\<rparr>
      else \<lparr>header = columns df, records = data df\<rparr>)"

section \<open>The environment and the world\<close>

text \<open>
  What the program reads: the file system (\<^verbatim>\<open>os.path.isfile\<close>, \<^verbatim>\<open>os.path.isdir\<close>,
  \<^verbatim>\<open>Path.rglob('*.sql')\<close> in discovery order, \<^verbatim>\<open>open(...).read()\<close>, whether the output
  path can be written) and the external \<^verbatim>\<open>SQLMetadata.extract_sql_statements_lineage\<close>.
  What it changes: the log of calls made to the extractor and the files written.
\<close>

record env =
  isfile :: "string \<Rightarrow> bool"
  isdir :: "string \<Rightarrow> bool"
  rglob_sql :: "string \<Rightarrow> string list"
  read_text :: "string \<Rightarrow> exn + string"
  writable :: "string \<Rightarrow> bool"
  extract_sql_statements_lineage :: "string \<Rightarrow> pyval \<Rightarrow> exn + lineage_result"

record world =
  calls :: "(string \<times> pyval) list"
  written :: "string \<Rightarrow> csv_file option"

section \<open>convert_sql_to_metadata\<close>

record convert_args =
  filename :: pyval
  sql_stmt :: string
  database_name :: pyval
  cluster_name :: pyval
  schema_name :: pyval
  table_name :: pyval
  source_database_name :: pyval
  source_cluster_name :: pyval
  dialect :: pyval

definition metadata :: frame where
  "metadata = \<lparr>columns = [''filename'', ''database_name'', ''cluster_name'', ''schema_name'',
                           ''table_name'', ''column_name'', ''column_data_type'', ''expression'',
                           ''message'', ''source_database_name'', ''source_cluster_name'',
                           ''source_schema_name'', ''source_table_name'', ''source_column_name''],
                data = []\<rparr>"

text \<open>Lines 76 to 89: the loop over the lineage items of one column; \<open>row\<close> is the address
  bound to \<^verbatim>\<open>row\<close>, and \<^verbatim>\<open>lineage_row = row\<close> is the same address.\<close>

fun lineage_items_loop :: "convert_args \<Rightarrow> nat \<Rightarrow> lineage_item list \<Rightarrow> st \<Rightarrow> exn + st" where
  "lineage_items_loop a row [] s = Inr s"
| "lineage_items_loop a row (lineage_item # rest) s =
     (let lineage_row = row in
      and_then (copy_item lineage_row ''source_schema_name'' lineage_item ''schema''
             (store lineage_row ''source_cluster_name'' (source_cluster_name a)
             (store lineage_row ''source_database_name'' (source_database_name a) s))) (\<lambda>s.
      and_then (copy_item lineage_row ''source_table_name'' lineage_item ''table'' s) (\<lambda>s.
      and_then (copy_item lineage_row ''source_column_name'' lineage_item ''column'' s) (\<lambda>s.
      and_then (copy_item lineage_row ''expression'' lineage_item ''expression'' s) (\<lambda>s.
      and_then (copy_item lineage_row ''filter_type'' lineage_item ''filter_type'' s) (\<lambda>s.
      and_then (copy_item lineage_row ''filter'' lineage_item ''filter'' s) (\<lambda>s.
      and_then (copy_item lineage_row ''message'' lineage_item ''message'' s) (\<lambda>s.
      lineage_items_loop a row rest (append_row lineage_row s)))))))))"

text \<open>Lines 64 to 89: the loop over the columns of one table.\<close>

definition column_data_type :: "column_details \<Rightarrow> pyval" where
  "column_data_type cd =
     (if truthy (get_or_none (cd_data_type cd)) then get_or_none (cd_data_type cd) else PStr ''NA'')"

fun columns_loop :: "convert_args \<Rightarrow> table_details \<Rightarrow> column_details dict \<Rightarrow> st \<Rightarrow> exn + st" where
  "columns_loop a td [] s = Inr s"
| "columns_loop a td ((column_name, cd) # rest) s =
     (case new_dict s of (row, s) \<Rightarrow>
      let s = store row ''filename'' (filename a) s;
          s = store row ''database_name'' (database_name a) s;
          s = store row ''cluster_name'' (cluster_name a) s;
          s = store row ''schema_name'' (get_or_none (td_schema td)) s;
          s = store row ''table_name'' (get_or_none (td_table td)) s;
          s = store row ''column_name'' (PStr column_name) s;
          s = store row ''column_data_type'' (column_data_type cd) s
      in and_then (case cd_lineage cd of None \<Rightarrow> Inr s
              | Some items \<Rightarrow> lineage_items_loop a row items s)
             (columns_loop a td rest))"

text \<open>Lines 90 to 97: the row of a table with no columns.\<close>

definition table_row :: "convert_args \<Rightarrow> table_details \<Rightarrow> st \<Rightarrow> exn + st" where
  "table_row a td s =
     (case new_dict s of (row, s) \<Rightarrow>
      let s = store row ''filename'' (filename a) s;
          s = store row ''database_name'' (database_name a) s;
          s = store row ''cluster_name'' (cluster_name a) s
      in case td_schema td of None \<Rightarrow> Inl (KeyError ''schema'')
         | Some sch \<Rightarrow>
             (let s = store row ''schema_name'' sch s
              in (case td_table td of None \<Rightarrow> Inl (KeyError ''table'')
                  | Some tab \<Rightarrow> Inr (append_row row (store row ''table_name'' tab s)))))"

text \<open>Lines 61 to 97: the loop over the tables of the lineage result.\<close>

fun tables_loop :: "convert_args \<Rightarrow> table_details dict \<Rightarrow> st \<Rightarrow> exn + st" where
  "tables_loop a [] s = Inr s"
| "tables_loop a ((fq_table_name, td) # rest) s =
     and_then (case td_columns td of None \<Rightarrow> Inl (KeyError ''columns'')
          | Some cols \<Rightarrow>
              if truthy_columns cols then columns_loop a td (columns_items cols) s
              else table_row a td s)
         (tables_loop a rest)"

text \<open>Lines 27 to 108. The handler \<^verbatim>\<open>except Exception as e: raise e\<close> re-raises what it
  caught, so an error goes through as it is.\<close>

definition convert_sql_to_metadata :: "env \<Rightarrow> convert_args \<Rightarrow> world \<Rightarrow> (exn + frame) \<times> world" where
  "convert_sql_to_metadata env a w =
     (let w = w\<lparr>calls := calls w @ [(sql_stmt a, dialect a)]\<rparr>
      in case extract_sql_statements_lineage env (sql_stmt a) (dialect a) of
           Inl e \<Rightarrow> (Inl e, w)
         | Inr lineage \<Rightarrow>
             if truthy_lineage lineage
             then (case tables_loop a (lineage_items lineage) empty_st of
                     Inl e \<Rightarrow> (Inl e, w)
                   | Inr s \<Rightarrow> (pd_concat [metadata, DataFrame (deref s)], w))
             else (Inl (PyException ''Column Lineage not found''), w))"

section \<open>process_sql_file and process\<close>

text \<open>\<^verbatim>\<open>Path(p).name\<close> and \<^verbatim>\<open>Path(p).stem\<close> for the path of a file: the last component,
  and that component without its last suffix (a leading or a trailing dot is no suffix).\<close>

definition path_name :: "string \<Rightarrow> string" where
  "path_name p = rev (takeWhile (\<lambda>c. c \<noteq> CHR ''/'') (rev p))"

definition stem :: "string \<Rightarrow> string" where
  "stem p =
     (let name = path_name p;
          ext = takeWhile (\<lambda>c. c \<noteq> CHR ''.'') (rev name);
          i = length name - length ext - 1
      in if CHR ''.'' \<in> set name \<and> 0 < i \<and> ext \<noteq> [] then take i name else name)"

text \<open>The first parameter of \<^verbatim>\<open>process_sql_file\<close> is a string (file input) or a
  \<^verbatim>\<open>Path\<close> (directory input).\<close>

datatype pathlike = StrPath string | PathObj string

fun path_string :: "pathlike \<Rightarrow> string" where
  "path_string (StrPath p) = p"
| "path_string (PathObj p) = p"

fun path_value :: "pathlike \<Rightarrow> pyval" where
  "path_value (StrPath p) = PStr p"
| "path_value (PathObj p) = PPath p"

record process_args =
  p_input :: string
  p_output :: string
  p_database_name :: pyval
  p_cluster_name :: pyval
  p_schema_name :: pyval
  p_table_name :: pyval
  p_source_database_name :: pyval
  p_source_cluster_name :: pyval
  p_dialect :: pyval

text \<open>Lines 123 to 131: the keyword arguments \<^verbatim>\<open>process_sql_file\<close> passes on.\<close>

definition process_sql_file_args :: "pathlike \<Rightarrow> process_args \<Rightarrow> string \<Rightarrow> convert_args" where
  "process_sql_file_args sql_file p text =
     \<lparr>filename = path_value sql_file,
      sql_stmt = text,
      database_name = p_database_name p,
      cluster_name = p_cluster_name p,
      schema_name = p_schema_name p,
      table_name = PStr (stem (path_string sql_file)),
      source_database_name = p_source_database_name p,
      source_cluster_name = p_source_cluster_name p,
      dialect = p_dialect p\<rparr>"

definition process_sql_file :: "env \<Rightarrow> pathlike \<Rightarrow> process_args \<Rightarrow> world \<Rightarrow> (exn + frame) \<times> world" where
  "process_sql_file env sql_file p w =
     (case read_text env (path_string sql_file) of
        Inl e \<Rightarrow> (Inl e, w)
      | Inr text \<Rightarrow> convert_sql_to_metadata env (process_sql_file_args sql_file p text) w)"

text \<open>Lines 155 to 163: the loop over the files of a directory.\<close>

fun sql_files_loop :: "env \<Rightarrow> process_args \<Rightarrow> string list \<Rightarrow> frame list \<Rightarrow> world \<Rightarrow> (exn + frame list) \<times> world" where
  "sql_files_loop env p [] dfs w = (Inr dfs, w)"
| "sql_files_loop env p (sql_file # rest) dfs w =
     (case process_sql_file env (PathObj sql_file) p w of
        (Inl e, w') \<Rightarrow> (Inl e, w')
      | (Inr df, w') \<Rightarrow> sql_files_loop env p rest (dfs @ [df]) w')"

text \<open>Lines 165 to 175: the keyword arguments for a literal statement.\<close>

definition literal_args :: "process_args \<Rightarrow> convert_args" where
  "literal_args p =
     \<lparr>filename = PNone,
      sql_stmt = p_input p,
      database_name = p_database_name p,
      cluster_name = p_cluster_name p,
      schema_name = p_schema_name p,
      table_name = p_table_name p,
      source_database_name = p_source_database_name p,
      source_cluster_name = p_source_cluster_name p,
      dialect = p_dialect p\<rparr>"

text \<open>Lines 142 to 176: the frames of the run.\<close>

definition gather :: "env \<Rightarrow> process_args \<Rightarrow> world \<Rightarrow> (exn + frame list) \<times> world" where
  "gather env p w =
     (if isfile env (p_input p) then
        (case process_sql_file env (StrPath (p_input p)) p w of
           (Inl e, w') \<Rightarrow> (Inl e, w')
         | (Inr df, w') \<Rightarrow> (Inr [df], w'))
      else if isdir env (p_input p) then
        sql_files_loop env p (rglob_sql env (p_input p)) [] w
      else
        (case convert_sql_to_metadata env (literal_args p) w of
           (Inl e, w') \<Rightarrow> (Inl e, w')
         | (Inr df, w') \<Rightarrow> (Inr [df], w')))"

text \<open>Lines 133 to 179.\<close>

definition process :: "env \<Rightarrow> process_args \<Rightarrow> world \<Rightarrow> (exn + unit) \<times> world" where
  "process env p w =
     (case gather env p w of
        (Inl e, w') \<Rightarrow> (Inl e, w')
      | (Inr dfs, w') \<Rightarrow>
          (case pd_concat dfs of
             Inl e \<Rightarrow> (Inl e, w')
           | Inr combined_df \<Rightarrow>
               if writable env (p_output p)
               then (Inr (), w'\<lparr>written := (written w')(p_output p \<mapsto> to_csv False combined_df)\<rparr>)
               else (Inl (Raised ''OSError'' (p_output p)), w')))"

definition item_keys :: "string list" where
  "item_keys = [''schema'', ''table'', ''column'', ''expression'', ''filter_type'', ''filter'', ''message'']"

definition wf_item :: "lineage_item \<Rightarrow> bool" where
  "wf_item item = list_all (\<lambda>k. map_of item k \<noteq> None) item_keys"

definition item_value :: "lineage_item \<Rightarrow> string \<Rightarrow> pyval" where
  "item_value item k = (case map_of item k of None \<Rightarrow> PNone | Some v \<Rightarrow> v)"

definition item_update :: "convert_args \<Rightarrow> lineage_item \<Rightarrow> pyval dict \<Rightarrow> pyval dict" where
  "item_update a item d =
     setitem (setitem (setitem (setitem (setitem (setitem (setitem (setitem (setitem d
       ''source_database_name'' (source_database_name a))
       ''source_cluster_name'' (source_cluster_name a))
       ''source_schema_name'' (item_value item ''schema''))
       ''source_table_name'' (item_value item ''table''))
       ''source_column_name'' (item_value item ''column''))
       ''expression'' (item_value item ''expression''))
       ''filter_type'' (item_value item ''filter_type''))
       ''filter'' (item_value item ''filter''))
       ''message'' (item_value item ''message'')"

definition set_row :: "nat \<Rightarrow> pyval dict \<Rightarrow> st \<Rightarrow> st" where
  "set_row r d s = s\<lparr>heap := (heap s)(r := d)\<rparr>"

definition base_row :: "convert_args \<Rightarrow> table_details \<Rightarrow> string \<Rightarrow> column_details \<Rightarrow> pyval dict" where
  "base_row a td column_name cd =
     [(''filename'', filename a), (''database_name'', database_name a),
      (''cluster_name'', cluster_name a), (''schema_name'', get_or_none (td_schema td)),
      (''table_name'', get_or_none (td_table td)), (''column_name'', PStr column_name),
      (''column_data_type'', column_data_type cd)]"

definition column_rows :: "convert_args \<Rightarrow> table_details \<Rightarrow> string \<times> column_details \<Rightarrow> pyval dict list" where
  "column_rows a td c =
     (case cd_lineage (snd c) of None \<Rightarrow> []
      | Some items \<Rightarrow> replicate (length items) (fold (item_update a) items (base_row a td (fst c) (snd c))))"

definition table_base_row :: "convert_args \<Rightarrow> table_details \<Rightarrow> pyval dict" where
  "table_base_row a td =
     [(''filename'', filename a), (''database_name'', database_name a),
      (''cluster_name'', cluster_name a), (''schema_name'', get_or_none (td_schema td)),
      (''table_name'', get_or_none (td_table td))]"

definition table_rows :: "convert_args \<Rightarrow> table_details \<Rightarrow> pyval dict list" where
  "table_rows a td =
     (case td_columns td of None \<Rightarrow> []
      | Some cols \<Rightarrow>
          if truthy_columns cols then concat (map (column_rows a td) (columns_items cols))
          else [table_base_row a td])"

definition flat_rows :: "convert_args \<Rightarrow> table_details dict \<Rightarrow> pyval dict list" where
  "flat_rows a ts = concat (map (\<lambda>t. table_rows a (snd t)) ts)"

definition rows_bounded :: "st \<Rightarrow> bool" where
  "rows_bounded s = (\<forall>r \<in> set (rows s). r < next_addr s)"

definition wf_column :: "column_details \<Rightarrow> bool" where
  "wf_column cd = (case cd_lineage cd of None \<Rightarrow> True | Some items \<Rightarrow> list_all wf_item items)"

definition wf_table :: "table_details \<Rightarrow> bool" where
  "wf_table td =
     (case td_columns td of None \<Rightarrow> False
      | Some cols \<Rightarrow>
          if truthy_columns cols then list_all (\<lambda>c. wf_column (snd c)) (columns_items cols)
          else td_schema td \<noteq> None \<and> td_table td \<noteq> None)"

definition wf_lineage :: "table_details dict \<Rightarrow> bool" where
  "wf_lineage ts = list_all (\<lambda>t. wf_table (snd t)) ts"

definition out_columns :: "pyval dict list \<Rightarrow> string list" where
  "out_columns ds = union_keys (columns metadata) (columns (DataFrame ds))"

definition out_frame :: "pyval dict list \<Rightarrow> frame" where
  "out_frame ds = \<lparr>columns = out_columns ds, data = map (\<lambda>d. map (cell_of d) (out_columns ds)) ds\<rparr>"

section \<open>Counting rows, and the statements of a run\<close>

text \<open>The number of rows the specification promises: one per lineage item of every column,
  and one for a table with no columns.\<close>

definition column_item_count :: "column_details \<Rightarrow> nat" where
  "column_item_count cd = (case cd_lineage cd of None \<Rightarrow> 0 | Some items \<Rightarrow> length items)"

definition table_row_count :: "table_details \<Rightarrow> nat" where
  "table_row_count td =
     (case td_columns td of None \<Rightarrow> 0
      | Some cols \<Rightarrow>
          if truthy_columns cols then sum_list (map (\<lambda>c. column_item_count (snd c)) (columns_items cols))
          else 1)"

definition lineage_row_count :: "table_details dict \<Rightarrow> nat" where
  "lineage_row_count ts = sum_list (map (\<lambda>t. table_row_count (snd t)) ts)"

text \<open>A world in which nothing has happened yet.\<close>

definition init_world :: world where
  "init_world = \<lparr>calls = [], written = (\<lambda>_. None)\<rparr>"

text \<open>The table obtained by processing one file of a directory on its own, and the text
  read from a file.\<close>

definition file_table :: "env \<Rightarrow> process_args \<Rightarrow> string \<Rightarrow> exn + frame" where
  "file_table env p f = fst (process_sql_file env (PathObj f) p init_world)"

definition file_text :: "env \<Rightarrow> string \<Rightarrow> string" where
  "file_text env f = (case read_text env f of Inl e \<Rightarrow> [] | Inr text \<Rightarrow> text)"

text \<open>\<open>stmt\<close> is a statement of the run: the text of the input file, the text of one of
  the files of the input directory, or the input itself.\<close>

definition run_statement :: "env \<Rightarrow> process_args \<Rightarrow> string \<Rightarrow> bool" where
  "run_statement env p stmt =
     (if isfile env (p_input p) then read_text env (p_input p) = Inr stmt
      else if isdir env (p_input p)
        then list_ex (\<lambda>f. read_text env f = Inr stmt) (rglob_sql env (p_input p))
      else stmt = p_input p)"

text \<open>The input is one statement: a file or a literal statement.\<close>

definition single_statement :: "env \<Rightarrow> process_args \<Rightarrow> bool" where
  "single_statement env p = (isfile env (p_input p) \<or> \<not> isdir env (p_input p))"

section \<open>A concrete environment\<close>

text \<open>
  Two lineage items for one column, which differ in the source column and the expression;
  a table \<^verbatim>\<open>db.t\<close> with that column and a table \<^verbatim>\<open>db.u\<close> with no columns.
\<close>

definition example_item_a :: lineage_item where
  "example_item_a = [(''schema'', PStr ''db''), (''table'', PStr ''src''), (''column'', PStr ''a''),
                     (''expression'', PStr ''a + 1''), (''filter_type'', PNone), (''filter'', PNone),
                     (''message'', PNone)]"

definition example_item_b :: lineage_item where
  "example_item_b = [(''schema'', PStr ''db''), (''table'', PStr ''src''), (''column'', PStr ''b''),
                     (''expression'', PStr ''b * 2''), (''filter_type'', PStr ''WHERE''),
                     (''filter'', PStr ''b > 0''), (''message'', PNone)]"

definition example_table_t :: table_details where
  "example_table_t = \<lparr>td_schema = Some (PStr ''db''), td_table = Some (PStr ''t''),
     td_columns = Some (Columns [(''id'', \<lparr>cd_data_type = None,
                                            cd_lineage = Some [example_item_a, example_item_b]\<rparr>)])\<rparr>"

definition example_table_u :: table_details where
  "example_table_u = \<lparr>td_schema = Some (PStr ''db''), td_table = Some (PStr ''u''),
     td_columns = Some (Columns [])\<rparr>"

definition example_tables :: "table_details dict" where
  "example_tables = [(''db.t'', example_table_t), (''db.u'', example_table_u)]"

text \<open>
  The directory \<^verbatim>\<open>q\<close> holds \<^verbatim>\<open>q/a.sql\<close> and \<^verbatim>\<open>q/b.sql\<close>, the directory \<^verbatim>\<open>e\<close> holds no
  \<^verbatim>\<open>.sql\<close> file. The extractor knows a query with lineage, a statement that only creates
  a table, a statement it cannot parse, and finds no lineage in anything else.
\<close>

definition example_extract :: "string \<Rightarrow> pyval \<Rightarrow> exn + lineage_result" where
  "example_extract stmt d =
     (if stmt = ''SELECT id FROM src'' then Inr (Lineage example_tables)
      else if stmt = ''CREATE TABLE u (id int)'' then Inr (Lineage [(''db.u'', example_table_u)])
      else if stmt = ''SELEC'' then Inl (Raised ''ParseError'' ''SELEC'')
      else Inr (Lineage []))"

definition example_env :: env where
  "example_env =
     \<lparr>isfile = (\<lambda>p. p = ''q/a.sql'' \<or> p = ''q/b.sql''),
      isdir = (\<lambda>p. p = ''q'' \<or> p = ''e''),
      rglob_sql = (\<lambda>p. if p = ''q'' then [''q/a.sql'', ''q/b.sql''] else []),
      read_text = (\<lambda>p. if p = ''q/a.sql'' then Inr ''SELECT id FROM src''
                        else if p = ''q/b.sql'' then Inr ''CREATE TABLE u (id int)''
                        else Inl (Raised ''FileNotFoundError'' p)),
      writable = (\<lambda>p. True),
      extract_sql_statements_lineage = example_extract\<rparr>"

definition example_process_args :: "string \<Rightarrow> process_args" where
  "example_process_args inp =
     \<lparr>p_input = inp, p_output = ''out.csv'', p_database_name = PStr ''hive'',
      p_cluster_name = PStr ''cobra'', p_schema_name = PStr ''sch'', p_table_name = PStr ''tab'',
      p_source_database_name = PNone, p_source_cluster_name = PNone, p_dialect = PNone\<rparr>"

text \<open>The table the code returns for the query of the example, passed as a literal
  statement: both rows of the column \<^verbatim>\<open>id\<close> hold the values of the second lineage item.\<close>

definition example_args :: convert_args where
  "example_args = literal_args (example_process_args ''SELECT id FROM src'')"

definition example_columns :: "string list" where
  "example_columns = [''filename'', ''database_name'', ''cluster_name'', ''schema_name'',
                      ''table_name'', ''column_name'', ''column_data_type'', ''expression'',
                      ''message'', ''source_database_name'', ''source_cluster_name'',
                      ''source_schema_name'', ''source_table_name'', ''source_column_name'',
                      ''filter_type'', ''filter'']"

definition example_row_b :: "cell list" where
  "example_row_b = [Val PNone, Val (PStr ''hive''), Val (PStr ''cobra''), Val (PStr ''db''),
                    Val (PStr ''t''), Val (PStr ''id''), Val (PStr ''NA''), Val (PStr ''b * 2''),
                    Val PNone, Val PNone, Val PNone, Val (PStr ''db''), Val (PStr ''src''),
                    Val (PStr ''b''), Val (PStr ''WHERE''), Val (PStr ''b > 0'')]"

definition example_row_u :: "cell list" where
  "example_row_u = [Val PNone, Val (PStr ''hive''), Val (PStr ''cobra''), Val (PStr ''db''),
                    Val (PStr ''u''), NaN, NaN, NaN, NaN, NaN, NaN, NaN, NaN, NaN, NaN, NaN]"

definition example_frame :: frame where
  "example_frame = \<lparr>columns = example_columns, data = [example_row_b, example_row_b, example_row_u]\<rparr>"


lemma and_then_Inl [simp]: "and_then (Inl e) f = Inl e"
  by (simp add: and_then_def)

lemma and_then_Inr [simp]: "and_then (Inr x) f = f x"
  by (simp add: and_then_def)

lemma and_then_eq_Inr: "and_then m f = Inr y \<longleftrightarrow> (\<exists>x. m = Inr x \<and> f x = Inr y)"
  by (cases m) simp_all

lemma map_of_setitem: "map_of (setitem d k v) k' = (if k' = k then Some v else map_of d k')"
  by (induction d) auto

lemma copy_item_wf:
  "map_of item src = Some v \<Longrightarrow> copy_item r k item src s = Inr (store r k v s)"
  by (simp add: copy_item_def getitem_def)

lemma copy_item_Inr:
  "copy_item r k item src s = Inr s' \<Longrightarrow> map_of item src \<noteq> None"
  by (auto simp: copy_item_def getitem_def split: option.splits)

lemma store_store: "store r k v s = set_row r (setitem (heap s r) k v) s"
  by (simp add: store_def set_row_def)

lemma set_row_simps [simp]:
  "heap (set_row r d s) = (heap s)(r := d)"
  "next_addr (set_row r d s) = next_addr s"
  "rows (set_row r d s) = rows s"
  "set_row r d (set_row r d' s) = set_row r d s"
  by (simp_all add: set_row_def)

lemma lineage_items_loop_wf:
  assumes "wf_item item"
  shows "lineage_items_loop a r (item # rest) s =
           lineage_items_loop a r rest (append_row r (set_row r (item_update a item (heap s r)) s))"
proof -
  from assms obtain v1 v2 v3 v4 v5 v6 v7 where v:
    "map_of item ''schema'' = Some v1" "map_of item ''table'' = Some v2"
    "map_of item ''column'' = Some v3" "map_of item ''expression'' = Some v4"
    "map_of item ''filter_type'' = Some v5" "map_of item ''filter'' = Some v6"
    "map_of item ''message'' = Some v7"
    by (auto simp: wf_item_def item_keys_def)
  show ?thesis
    by (simp add: v copy_item_wf store_store item_update_def item_value_def)
qed

lemma lineage_items_loop_Inr_wf:
  assumes "lineage_items_loop a r (item # rest) s = Inr s'"
  shows "wf_item item"
  using assms
  by (auto simp: and_then_eq_Inr wf_item_def item_keys_def dest!: copy_item_Inr)

lemma lineage_items_loop_effect:
  "lineage_items_loop a r items s = Inr s' \<Longrightarrow>
     s' = s\<lparr>heap := (heap s)(r := fold (item_update a) items (heap s r)),
            rows := rows s @ replicate (length items) r\<rparr>"
proof (induction items arbitrary: s)
  case Nil
  then show ?case by simp
next
  case (Cons item rest)
  have wf: "wf_item item"
    using Cons.prems by (rule lineage_items_loop_Inr_wf)
  let ?s1 = "append_row r (set_row r (item_update a item (heap s r)) s)"
  have "lineage_items_loop a r rest ?s1 = Inr s'"
    using Cons.prems by (simp only: lineage_items_loop_wf [OF wf])
  from Cons.IH [OF this] show ?case
    by (simp add: append_row_def set_row_def replicate_app_Cons_same fun_upd_def cong: if_cong)
qed

lemma lineage_items_loop_total:
  "list_all wf_item items \<Longrightarrow> \<exists>s'. lineage_items_loop a r items s = Inr s'"
proof (induction items arbitrary: s)
  case Nil
  then show ?case by simp
next
  case (Cons item rest)
  then have wf: "wf_item item" and rest: "list_all wf_item rest" by simp_all
  show ?case
    by (simp only: lineage_items_loop_wf [OF wf]) (rule Cons.IH [OF rest])
qed

lemma column_prefix:
  "store r ''column_data_type'' v7 (store r ''column_name'' v6 (store r ''table_name'' v5
     (store r ''schema_name'' v4 (store r ''cluster_name'' v3 (store r ''database_name'' v2
     (store r ''filename'' v1 (s\<lparr>heap := (heap s)(r := []), next_addr := n\<rparr>)))))))
   = s\<lparr>heap := (heap s)(r := [(''filename'', v1), (''database_name'', v2), (''cluster_name'', v3),
         (''schema_name'', v4), (''table_name'', v5), (''column_name'', v6), (''column_data_type'', v7)]),
        next_addr := n\<rparr>"
  by (simp add: store_def)

lemma columns_loop_Cons:
  "columns_loop a td ((cn, cd) # rest) s =
     and_then (case cd_lineage cd of
                 None \<Rightarrow> Inr (s\<lparr>heap := (heap s)(next_addr s := base_row a td cn cd), next_addr := Suc (next_addr s)\<rparr>)
               | Some items \<Rightarrow> lineage_items_loop a (next_addr s) items
                   (s\<lparr>heap := (heap s)(next_addr s := base_row a td cn cd), next_addr := Suc (next_addr s)\<rparr>))
              (columns_loop a td rest)"
  by (simp add: new_dict_def Let_def column_prefix base_row_def split: option.split)

lemma deref_fresh:
  "rows_bounded s \<Longrightarrow> map ((heap s)(next_addr s := d)) (rows s) = map (heap s) (rows s)"
  by (auto simp: rows_bounded_def)

lemma column_step:
  assumes step: "(case cd_lineage cd of None \<Rightarrow> Inr s1
                  | Some items \<Rightarrow> lineage_items_loop a (next_addr s) items s1) = Inr s2"
    and s1: "s1 = s\<lparr>heap := (heap s)(next_addr s := base_row a td cn cd), next_addr := Suc (next_addr s)\<rparr>"
    and bounded: "rows_bounded s"
  shows "rows_bounded s2 \<and> next_addr s2 = Suc (next_addr s)
         \<and> (\<forall>x<next_addr s. heap s2 x = heap s x)
         \<and> deref s2 = deref s @ column_rows a td (cn, cd)"
proof (cases "cd_lineage cd")
  case None
  with step have "s2 = s1" by simp
  with None s1 bounded show ?thesis
    by (auto simp: rows_bounded_def deref_def column_rows_def)
next
  case (Some items)
  with step have "lineage_items_loop a (next_addr s) items s1 = Inr s2" by simp
  from lineage_items_loop_effect [OF this]
  have s2: "s2 = s1\<lparr>heap := (heap s1)(next_addr s := fold (item_update a) items (heap s1 (next_addr s))),
                     rows := rows s1 @ replicate (length items) (next_addr s)\<rparr>" .
  have fresh: "\<forall>r \<in> set (rows s). r \<noteq> next_addr s"
    using bounded by (auto simp: rows_bounded_def)
  show ?thesis
    using Some fresh bounded
    by (auto simp: s2 s1 rows_bounded_def deref_def column_rows_def)
qed

lemma columns_loop_effect:
  "columns_loop a td cols s = Inr s' \<Longrightarrow> rows_bounded s \<Longrightarrow>
     rows_bounded s' \<and> next_addr s \<le> next_addr s'
     \<and> (\<forall>x<next_addr s. heap s' x = heap s x)
     \<and> deref s' = deref s @ concat (map (column_rows a td) cols)"
proof (induction cols arbitrary: s)
  case Nil
  then show ?case by simp
next
  case (Cons c rest)
  obtain cn cd where c: "c = (cn, cd)" by (cases c)
  let ?s1 = "s\<lparr>heap := (heap s)(next_addr s := base_row a td cn cd), next_addr := Suc (next_addr s)\<rparr>"
  from Cons.prems(1) obtain s2 where
    step: "(case cd_lineage cd of None \<Rightarrow> Inr ?s1
            | Some items \<Rightarrow> lineage_items_loop a (next_addr s) items ?s1) = Inr s2"
    and rest: "columns_loop a td rest s2 = Inr s'"
    unfolding c columns_loop_Cons and_then_eq_Inr by blast
  from column_step [OF step refl Cons.prems(2)]
  have b2: "rows_bounded s2" and n2: "next_addr s2 = Suc (next_addr s)"
    and h2: "\<forall>x<next_addr s. heap s2 x = heap s x"
    and d2: "deref s2 = deref s @ column_rows a td (cn, cd)"
    by simp_all
  from Cons.IH [OF rest b2]
  have "rows_bounded s'" and "next_addr s2 \<le> next_addr s'"
    and "\<forall>x<next_addr s2. heap s' x = heap s2 x"
    and "deref s' = deref s2 @ concat (map (column_rows a td) rest)"
    by simp_all
  with n2 h2 d2 show ?case
    by (simp add: c)
qed

lemma columns_loop_total:
  "list_all (\<lambda>c. wf_column (snd c)) cols \<Longrightarrow> \<exists>s'. columns_loop a td cols s = Inr s'"
proof (induction cols arbitrary: s)
  case Nil
  then show ?case by simp
next
  case (Cons c rest)
  obtain cn cd where c: "c = (cn, cd)" by (cases c)
  from Cons.prems have wf: "wf_column cd" and rest: "list_all (\<lambda>c. wf_column (snd c)) rest"
    by (simp_all add: c)
  let ?s1 = "s\<lparr>heap := (heap s)(next_addr s := base_row a td cn cd), next_addr := Suc (next_addr s)\<rparr>"
  have "\<exists>s2. (case cd_lineage cd of None \<Rightarrow> Inr ?s1
              | Some items \<Rightarrow> lineage_items_loop a (next_addr s) items ?s1) = Inr s2"
    using wf lineage_items_loop_total [of _ a "next_addr s" ?s1]
    by (auto simp: wf_column_def split: option.splits)
  then obtain s2 where "(case cd_lineage cd of None \<Rightarrow> Inr ?s1
              | Some items \<Rightarrow> lineage_items_loop a (next_addr s) items ?s1) = Inr s2" ..
  moreover from Cons.IH [OF rest] obtain s' where "columns_loop a td rest s2 = Inr s'" ..
  ultimately show ?case
    unfolding c columns_loop_Cons by simp
qed

lemma table_row_effect:
  assumes "table_row a td s = Inr s2" and "rows_bounded s"
  shows "rows_bounded s2 \<and> next_addr s2 = Suc (next_addr s)
         \<and> (\<forall>x<next_addr s. heap s2 x = heap s x)
         \<and> deref s2 = deref s @ [table_base_row a td]"
proof -
  from assms(1) obtain sch tab where td: "td_schema td = Some sch" "td_table td = Some tab"
    by (auto simp: table_row_def new_dict_def Let_def split: option.splits)
  have fresh: "\<forall>r \<in> set (rows s). r \<noteq> next_addr s"
    using assms(2) by (auto simp: rows_bounded_def)
  from assms(1) have "s2 = s\<lparr>heap := (heap s)(next_addr s := table_base_row a td),
                             next_addr := Suc (next_addr s), rows := rows s @ [next_addr s]\<rparr>"
    by (auto simp: table_row_def new_dict_def Let_def td store_def append_row_def
        table_base_row_def get_or_none_def)
  with fresh assms(2) show ?thesis
    by (auto simp: rows_bounded_def deref_def)
qed

lemma table_row_total:
  "td_schema td \<noteq> None \<Longrightarrow> td_table td \<noteq> None \<Longrightarrow> \<exists>s'. table_row a td s = Inr s'"
  by (auto simp: table_row_def new_dict_def Let_def)

lemma tables_loop_effect:
  "tables_loop a ts s = Inr s' \<Longrightarrow> rows_bounded s \<Longrightarrow>
     rows_bounded s' \<and> next_addr s \<le> next_addr s'
     \<and> (\<forall>x<next_addr s. heap s' x = heap s x)
     \<and> deref s' = deref s @ flat_rows a ts"
proof (induction ts arbitrary: s)
  case Nil
  then show ?case by (simp add: flat_rows_def)
next
  case (Cons t rest)
  obtain fq td where t: "t = (fq, td)" by (cases t)
  from Cons.prems(1) obtain s2 where
    step: "(case td_columns td of None \<Rightarrow> Inl (KeyError ''columns'')
            | Some cols \<Rightarrow> if truthy_columns cols then columns_loop a td (columns_items cols) s
                           else table_row a td s) = Inr s2"
    and rest: "tables_loop a rest s2 = Inr s'"
    unfolding t tables_loop.simps and_then_eq_Inr by blast
  have "rows_bounded s2 \<and> next_addr s \<le> next_addr s2
        \<and> (\<forall>x<next_addr s. heap s2 x = heap s x)
        \<and> deref s2 = deref s @ table_rows a td"
  proof (cases "td_columns td")
    case None
    with step show ?thesis by simp
  next
    case (Some cols)
    show ?thesis
    proof (cases "truthy_columns cols")
      case True
      with step Some have "columns_loop a td (columns_items cols) s = Inr s2" by simp
      from columns_loop_effect [OF this Cons.prems(2)] show ?thesis
        by (simp add: table_rows_def Some True)
    next
      case False
      with step Some have "table_row a td s = Inr s2" by simp
      from table_row_effect [OF this Cons.prems(2)] show ?thesis
        by (simp add: table_rows_def Some False)
    qed
  qed
  then have b2: "rows_bounded s2" and n2: "next_addr s \<le> next_addr s2"
    and h2: "\<forall>x<next_addr s. heap s2 x = heap s x"
    and d2: "deref s2 = deref s @ table_rows a td"
    by simp_all
  from Cons.IH [OF rest b2]
  have "rows_bounded s'" and "next_addr s2 \<le> next_addr s'"
    and "\<forall>x<next_addr s2. heap s' x = heap s2 x"
    and "deref s' = deref s2 @ flat_rows a rest"
    by simp_all
  with n2 h2 d2 show ?case
    by (simp add: t flat_rows_def)
qed

lemma tables_loop_total:
  "wf_lineage ts \<Longrightarrow> \<exists>s'. tables_loop a ts s = Inr s'"
proof (induction ts arbitrary: s)
  case Nil
  then show ?case by simp
next
  case (Cons t rest)
  obtain fq td where t: "t = (fq, td)" by (cases t)
  from Cons.prems have wf: "wf_table td" and rest: "wf_lineage rest"
    by (simp_all add: t wf_lineage_def)
  have "\<exists>s2. (case td_columns td of None \<Rightarrow> Inl (KeyError ''columns'')
            | Some cols \<Rightarrow> if truthy_columns cols then columns_loop a td (columns_items cols) s
                           else table_row a td s) = Inr s2"
    using wf columns_loop_total [of _ a td s] table_row_total [of td a s]
    by (auto simp: wf_table_def split: option.splits)
  then obtain s2 where "(case td_columns td of None \<Rightarrow> Inl (KeyError ''columns'')
            | Some cols \<Rightarrow> if truthy_columns cols then columns_loop a td (columns_items cols) s
                           else table_row a td s) = Inr s2" ..
  moreover from Cons.IH [OF rest] obtain s' where "tables_loop a rest s2 = Inr s'" ..
  ultimately show ?case
    unfolding t tables_loop.simps by simp
qed

lemma tables_loop_empty_st:
  assumes "tables_loop a ts empty_st = Inr s'"
  shows "deref s' = flat_rows a ts"
proof -
  have "rows_bounded empty_st" by (simp add: rows_bounded_def empty_st_def)
  from tables_loop_effect [OF assms this] show ?thesis
    by (simp add: deref_def empty_st_def)
qed

lemma set_union_keys: "set (union_keys acc ks) = set acc \<union> set ks"
  by (induction ks arbitrary: acc) auto

lemma distinct_union_keys: "distinct acc \<Longrightarrow> distinct (union_keys acc ks)"
  by (induction ks arbitrary: acc) auto

lemma union_keys_distinct_Nil: "distinct ks \<Longrightarrow> set acc \<inter> set ks = {} \<Longrightarrow> union_keys acc ks = acc @ ks"
  by (induction ks arbitrary: acc) auto

lemma set_union_all: "set (union_all acc kss) = set acc \<union> (\<Union>ks \<in> set kss. set ks)"
  by (induction kss arbitrary: acc) (auto simp: set_union_keys)

lemma distinct_union_all: "distinct acc \<Longrightarrow> distinct (union_all acc kss)"
  by (induction kss arbitrary: acc) (auto simp: distinct_union_keys)

lemma columns_DataFrame: "set (columns (DataFrame ds)) = (\<Union>d \<in> set ds. fst ` set d)"
  by (simp add: DataFrame_def Let_def set_union_all)

lemma data_DataFrame: "data (DataFrame ds) = map (\<lambda>d. map (cell_of d) (columns (DataFrame ds))) ds"
  by (simp add: DataFrame_def Let_def)

lemma cell_of_missing: "c \<notin> fst ` set d \<Longrightarrow> cell_of d c = NaN"
proof -
  assume "c \<notin> fst ` set d"
  then have "map_of d c = None" by (simp add: map_of_eq_None_iff)
  then show ?thesis by (simp add: cell_of_def)
qed

lemma reindex_cells:
  assumes "fst ` set d \<subseteq> set src"
  shows "reindex src dst (map (cell_of d) src) = map (cell_of d) dst"
proof -
  have "(case map_of (zip src (map (cell_of d) src)) c of None \<Rightarrow> NaN | Some x \<Rightarrow> x) = cell_of d c" for c
  proof (cases "c \<in> set src")
    case True
    then show ?thesis by (simp add: map_of_zip_map)
  next
    case False
    with assms have "c \<notin> fst ` set d" by blast
    from cell_of_missing [OF this] False show ?thesis by (simp add: map_of_zip_map)
  qed
  then show ?thesis by (simp add: reindex_def)
qed

lemma metadata_columns_distinct: "distinct (columns metadata)"
  by (simp add: metadata_def)

lemma pd_concat_metadata: "pd_concat [metadata, DataFrame ds] = Inr (out_frame ds)"
proof -
  have cols: "union_all [] (map columns [metadata, DataFrame ds]) = out_columns ds"
    using union_keys_distinct_Nil [OF metadata_columns_distinct, of "[]"]
    by (simp add: out_columns_def)
  have "map (reindex (columns (DataFrame ds)) (out_columns ds)) (data (DataFrame ds))
        = map (\<lambda>d. map (cell_of d) (out_columns ds)) ds"
  proof -
    have "fst ` set d \<subseteq> set (columns (DataFrame ds))" if "d \<in> set ds" for d
      using that unfolding columns_DataFrame by blast
    then show ?thesis
      by (simp add: data_DataFrame reindex_cells)
  qed
  moreover have "data metadata = []" by (simp add: metadata_def)
  ultimately show ?thesis
    unfolding pd_concat_def Let_def cols out_frame_def by simp
qed

lemma convert_snd:
  "snd (convert_sql_to_metadata env a w) = w\<lparr>calls := calls w @ [(sql_stmt a, dialect a)]\<rparr>"
  by (simp add: convert_sql_to_metadata_def Let_def split: sum.splits)

lemma convert_fst_world:
  "fst (convert_sql_to_metadata env a w) = fst (convert_sql_to_metadata env a w')"
  by (simp add: convert_sql_to_metadata_def Let_def split: sum.splits)

lemma convert_Inr:
  assumes "fst (convert_sql_to_metadata env a w) = Inr df"
  shows "\<exists>ts. extract_sql_statements_lineage env (sql_stmt a) (dialect a) = Inr (Lineage ts)
              \<and> ts \<noteq> [] \<and> df = out_frame (flat_rows a ts)"
proof -
  from assms obtain lineage where ex: "extract_sql_statements_lineage env (sql_stmt a) (dialect a) = Inr lineage"
    and tr: "truthy_lineage lineage"
    by (auto simp: convert_sql_to_metadata_def Let_def split: sum.splits if_splits)
  from tr obtain ts where l: "lineage = Lineage ts" "ts \<noteq> []"
    by (cases lineage) auto
  from assms ex l obtain s where loop: "tables_loop a ts empty_st = Inr s"
    and df: "pd_concat [metadata, DataFrame (deref s)] = Inr df"
    by (auto simp: convert_sql_to_metadata_def Let_def split: sum.splits)
  from df show ?thesis
    by (simp add: ex l tables_loop_empty_st [OF loop] pd_concat_metadata)
qed

lemma convert_wf:
  assumes "extract_sql_statements_lineage env (sql_stmt a) (dialect a) = Inr (Lineage ts)"
    and "ts \<noteq> []" and "wf_lineage ts"
  shows "fst (convert_sql_to_metadata env a w) = Inr (out_frame (flat_rows a ts))"
proof -
  from tables_loop_total [OF assms(3)] obtain s where loop: "tables_loop a ts empty_st = Inr s" ..
  show ?thesis
    by (simp add: convert_sql_to_metadata_def Let_def assms(1,2) loop
        tables_loop_empty_st [OF loop] pd_concat_metadata)
qed

lemma process_sql_file_snd:
  "snd (process_sql_file env f p w) =
     (case read_text env (path_string f) of Inl e \<Rightarrow> w
      | Inr text \<Rightarrow> w\<lparr>calls := calls w @ [(text, p_dialect p)]\<rparr>)"
  by (simp add: process_sql_file_def convert_snd process_sql_file_args_def split: sum.splits)

lemma process_sql_file_written:
  "written (snd (process_sql_file env f p w)) = written w"
  by (simp add: process_sql_file_snd split: sum.splits)

lemma process_sql_file_fst_world:
  "fst (process_sql_file env f p w) = fst (process_sql_file env f p w')"
  using convert_fst_world by (simp add: process_sql_file_def split: sum.splits)

lemma process_sql_file_file_table:
  "fst (process_sql_file env (PathObj f) p w) = file_table env p f"
  unfolding file_table_def by (rule process_sql_file_fst_world)

lemma sql_files_loop_written:
  "written (snd (sql_files_loop env p fs dfs w)) = written w"
proof (induction fs arbitrary: dfs w)
  case Nil
  then show ?case by simp
next
  case (Cons f fs)
  show ?case
  proof (cases "process_sql_file env (PathObj f) p w")
    case (Pair r w')
    have "written w' = written w"
      using process_sql_file_written [of env "PathObj f" p w] Pair by simp
    with Pair Cons.IH show ?thesis
      by (cases r) simp_all
  qed
qed

lemma sql_files_loop_fails:
  assumes "f \<in> set fs" and "file_table env p f = Inl x"
  shows "\<exists>e. fst (sql_files_loop env p fs dfs w) = Inl e"
  using assms(1)
proof (induction fs arbitrary: dfs w)
  case Nil
  then show ?case by simp
next
  case (Cons g fs)
  show ?case
  proof (cases "process_sql_file env (PathObj g) p w")
    case (Pair r w')
    show ?thesis
    proof (cases r)
      case (Inl e)
      with Pair show ?thesis by simp
    next
      case (Inr df)
      with Pair have "file_table env p g = Inr df"
        using process_sql_file_file_table [of env g p w] by simp
      with assms(2) have "g \<noteq> f" by auto
      with Cons.prems have "f \<in> set fs" by simp
      from Cons.IH [OF this] Pair Inr show ?thesis by simp
    qed
  qed
qed

lemma gather_written: "written (snd (gather env p w)) = written w"
proof -
  have a: "written (snd (case x of (Inl e, w') \<Rightarrow> (Inl e, w') | (Inr df, w') \<Rightarrow> (Inr [df], w'))) = written (snd x)"
    for x :: "(exn + frame) \<times> world"
    by (cases x) (simp split: sum.splits)
  show ?thesis
    unfolding gather_def
    by (simp add: a sql_files_loop_written process_sql_file_written convert_snd)
qed

lemma process_failure_written:
  assumes "fst (process env p w) = Inl e"
  shows "written (snd (process env p w)) = written w"
proof (cases "gather env p w")
  case (Pair r w')
  then have "written w' = written w"
    using gather_written [of env p w] by simp
  with Pair assms show ?thesis
    by (auto simp: process_def split: sum.splits if_splits)
qed

lemma gather_failure:
  "fst (gather env p w) = Inl e \<Longrightarrow> process env p w = (Inl e, snd (gather env p w))"
  by (cases "gather env p w") (simp add: process_def)

lemma run_statement_fails:
  assumes run: "run_statement env p stmt"
    and err: "\<And>a w. sql_stmt a = stmt \<Longrightarrow> dialect a = p_dialect p \<Longrightarrow>
                fst (convert_sql_to_metadata env a w) = Inl x"
  shows "(\<exists>e. fst (process env p w) = Inl e)
         \<and> (single_statement env p \<longrightarrow>
              process env p w = (Inl x, w\<lparr>calls := calls w @ [(stmt, p_dialect p)]\<rparr>))"
proof -
  have conv: "convert_sql_to_metadata env a w = (Inl x, w\<lparr>calls := calls w @ [(stmt, p_dialect p)]\<rparr>)"
    if "sql_stmt a = stmt" "dialect a = p_dialect p" for a w
    using err [OF that, of w] convert_snd [of env a w] that
    by (cases "convert_sql_to_metadata env a w") simp
  show ?thesis
  proof (cases "isfile env (p_input p)")
    case True
    with run have rd: "read_text env (p_input p) = Inr stmt"
      by (simp add: run_statement_def)
    have "process_sql_file env (StrPath (p_input p)) p w
            = (Inl x, w\<lparr>calls := calls w @ [(stmt, p_dialect p)]\<rparr>)"
      by (simp add: process_sql_file_def rd conv process_sql_file_args_def)
    then have "gather env p w = (Inl x, w\<lparr>calls := calls w @ [(stmt, p_dialect p)]\<rparr>)"
      by (simp add: gather_def True)
    then show ?thesis by (simp add: process_def)
  next
    case False
    show ?thesis
    proof (cases "isdir env (p_input p)")
      case True
      with run False obtain f where f: "f \<in> set (rglob_sql env (p_input p))"
        and rd: "read_text env f = Inr stmt"
        by (auto simp: run_statement_def list_ex_iff)
      have "file_table env p f = Inl x"
        by (simp add: file_table_def process_sql_file_def rd conv process_sql_file_args_def)
      from sql_files_loop_fails [OF f this]
      obtain e where "fst (sql_files_loop env p (rglob_sql env (p_input p)) [] w) = Inl e" ..
      then have "fst (gather env p w) = Inl e"
        by (simp add: gather_def False True)
      from gather_failure [OF this] show ?thesis
        using False True by (auto simp: single_statement_def)
    next
      case notdir: False
      with run False have st: "stmt = p_input p"
        by (simp add: run_statement_def)
      have "gather env p w = (Inl x, w\<lparr>calls := calls w @ [(stmt, p_dialect p)]\<rparr>)"
        by (simp add: gather_def False notdir conv st literal_args_def)
      then show ?thesis by (simp add: process_def)
    qed
  qed
qed

lemma convert_falsy:
  assumes "extract_sql_statements_lineage env (sql_stmt a) (dialect a) = Inr lineage"
    and "\<not> truthy_lineage lineage"
  shows "convert_sql_to_metadata env a w
           = (Inl (PyException ''Column Lineage not found''),
              w\<lparr>calls := calls w @ [(sql_stmt a, dialect a)]\<rparr>)"
  using assms by (simp add: convert_sql_to_metadata_def Let_def)

lemma convert_raises:
  assumes "extract_sql_statements_lineage env (sql_stmt a) (dialect a) = Inl e"
  shows "convert_sql_to_metadata env a w = (Inl e, w\<lparr>calls := calls w @ [(sql_stmt a, dialect a)]\<rparr>)"
  using assms by (simp add: convert_sql_to_metadata_def Let_def)

lemma length_column_rows: "length (column_rows a td c) = column_item_count (snd c)"
  by (simp add: column_rows_def column_item_count_def split: option.splits)

lemma length_table_rows: "length (table_rows a td) = table_row_count td"
  by (simp add: table_rows_def table_row_count_def length_concat comp_def length_column_rows
      split: option.splits)

lemma length_flat_rows: "length (flat_rows a ts) = lineage_row_count ts"
  by (simp add: flat_rows_def lineage_row_count_def length_concat comp_def length_table_rows)

lemma flat_rows_append: "flat_rows a (xs @ ys) = flat_rows a xs @ flat_rows a ys"
  by (simp add: flat_rows_def)

lemma data_out_frame: "data (out_frame ds) = map (\<lambda>d. map (cell_of d) (out_columns ds)) ds"
  by (simp add: out_frame_def)

lemma columns_out_frame: "columns (out_frame ds) = out_columns ds"
  by (simp add: out_frame_def)

lemma metadata_in_out_columns: "c \<in> set (columns metadata) \<Longrightarrow> c \<in> set (out_columns ds)"
  by (simp add: out_columns_def set_union_keys)

lemma cell_at_out_frame:
  "cell_at (out_frame ds) (map (cell_of d) (out_columns ds)) c
     = (if c \<in> set (out_columns ds) then Some (cell_of d c) else None)"
  by (simp add: cell_at_def columns_out_frame map_of_zip_map)

lemma map_of_item_update:
  "k \<notin> {''source_database_name'', ''source_cluster_name'', ''source_schema_name'',
         ''source_table_name'', ''source_column_name'', ''expression'', ''filter_type'',
         ''filter'', ''message''} \<Longrightarrow>
   map_of (item_update a item d) k = map_of d k"
  by (simp add: item_update_def map_of_setitem)

lemma map_of_fold_item_update:
  "k \<notin> {''source_database_name'', ''source_cluster_name'', ''source_schema_name'',
         ''source_table_name'', ''source_column_name'', ''expression'', ''filter_type'',
         ''filter'', ''message''} \<Longrightarrow>
   map_of (fold (item_update a) items d) k = map_of d k"
  by (induction items arbitrary: d) (simp_all add: map_of_item_update del: insert_iff)

lemma table_rows_identifying:
  assumes "d \<in> set (table_rows a td)"
  shows "map_of d ''filename'' = Some (filename a)
       \<and> map_of d ''database_name'' = Some (database_name a)
       \<and> map_of d ''cluster_name'' = Some (cluster_name a)
       \<and> map_of d ''schema_name'' = Some (get_or_none (td_schema td))
       \<and> map_of d ''table_name'' = Some (get_or_none (td_table td))"
proof (cases "td_columns td")
  case None
  with assms show ?thesis by (simp add: table_rows_def)
next
  case (Some cols)
  show ?thesis
  proof (cases "truthy_columns cols")
    case True
    with assms Some obtain c items where "c \<in> set (columns_items cols)"
      and d: "d = fold (item_update a) items (base_row a td (fst c) (snd c))"
      by (auto simp: table_rows_def column_rows_def split: option.splits)
    show ?thesis
      unfolding d by (simp add: map_of_fold_item_update base_row_def)
  next
    case False
    with assms Some show ?thesis
      by (simp add: table_rows_def table_base_row_def)
  qed
qed

lemma flat_rows_identifying:
  assumes "d \<in> set (flat_rows a ts)"
  shows "\<exists>td \<in> snd ` set ts.
           map_of d ''filename'' = Some (filename a)
         \<and> map_of d ''database_name'' = Some (database_name a)
         \<and> map_of d ''cluster_name'' = Some (cluster_name a)
         \<and> map_of d ''schema_name'' = Some (get_or_none (td_schema td))
         \<and> map_of d ''table_name'' = Some (get_or_none (td_table td))"
proof -
  from assms obtain t where t: "t \<in> set ts" and "d \<in> set (table_rows a (snd t))"
    by (auto simp: flat_rows_def)
  from table_rows_identifying [OF this(2)] t show ?thesis
    by blast
qed

lemma out_frame_row:
  assumes "r \<in> set (data (out_frame ds))" and "c \<in> set (columns metadata)"
  shows "\<exists>d \<in> set ds. cell_at (out_frame ds) r c = Some (cell_of d c)"
proof -
  from assms(1) obtain d where d: "d \<in> set ds" and r: "r = map (cell_of d) (out_columns ds)"
    by (auto simp: data_out_frame)
  from metadata_in_out_columns [OF assms(2)] have "c \<in> set (out_columns ds)" .
  with d show ?thesis
    unfolding r by (auto simp: cell_at_out_frame)
qed

lemma example_flat_rows:
  "flat_rows example_args example_tables
     = [[(''filename'', PNone), (''database_name'', PStr ''hive''),
         (''cluster_name'', PStr ''cobra''), (''schema_name'', PStr ''db''),
         (''table_name'', PStr ''t''), (''column_name'', PStr ''id''),
         (''column_data_type'', PStr ''NA''), (''source_database_name'', PNone),
         (''source_cluster_name'', PNone), (''source_schema_name'', PStr ''db''),
         (''source_table_name'', PStr ''src''), (''source_column_name'', PStr ''b''),
         (''expression'', PStr ''b * 2''), (''filter_type'', PStr ''WHERE''),
         (''filter'', PStr ''b > 0''), (''message'', PNone)],
        [(''filename'', PNone), (''database_name'', PStr ''hive''),
         (''cluster_name'', PStr ''cobra''), (''schema_name'', PStr ''db''),
         (''table_name'', PStr ''t''), (''column_name'', PStr ''id''),
         (''column_data_type'', PStr ''NA''), (''source_database_name'', PNone),
         (''source_cluster_name'', PNone), (''source_schema_name'', PStr ''db''),
         (''source_table_name'', PStr ''src''), (''source_column_name'', PStr ''b''),
         (''expression'', PStr ''b * 2''), (''filter_type'', PStr ''WHERE''),
         (''filter'', PStr ''b > 0''), (''message'', PNone)],
        [(''filename'', PNone), (''database_name'', PStr ''hive''),
         (''cluster_name'', PStr ''cobra''), (''schema_name'', PStr ''db''),
         (''table_name'', PStr ''u'')]]"
  by (simp add: example_args_def literal_args_def example_process_args_def example_tables_def
      example_table_t_def example_table_u_def example_item_a_def example_item_b_def
      flat_rows_def table_rows_def column_rows_def base_row_def table_base_row_def
      item_update_def item_value_def column_data_type_def get_or_none_def numeral_2_eq_2)

lemma example_out_columns:
  "out_columns (flat_rows example_args example_tables) = example_columns"
  unfolding example_flat_rows
  by (simp add: out_columns_def DataFrame_def metadata_def Let_def example_columns_def)

lemma example_out_frame:
  "out_frame (flat_rows example_args example_tables) = example_frame"
  unfolding out_frame_def example_out_columns
  unfolding example_flat_rows
  by (simp add: example_frame_def example_columns_def example_row_b_def example_row_u_def
      cell_of_def)

lemma example_convert:
  "fst (convert_sql_to_metadata example_env example_args init_world) = Inr example_frame"
proof -
  have ex: "extract_sql_statements_lineage example_env (sql_stmt example_args) (dialect example_args)
              = Inr (Lineage example_tables)"
    by (simp add: example_env_def example_extract_def example_args_def literal_args_def
        example_process_args_def)
  have ne: "example_tables \<noteq> []"
    by (simp add: example_tables_def)
  have wf: "wf_lineage example_tables"
    by (simp add: example_tables_def example_table_t_def example_table_u_def wf_lineage_def
        wf_table_def wf_column_def wf_item_def item_keys_def example_item_a_def example_item_b_def)
  from convert_wf [OF ex ne wf, of init_world] show ?thesis
    by (simp add: example_out_frame)
qed

lemma lineage_items_loop_ignores:
  "lineage_items_loop (a\<lparr>schema_name := s, table_name := t\<rparr>) r items = lineage_items_loop a r items"
proof (induction items)
  case Nil
  show ?case by (simp add: fun_eq_iff)
next
  case (Cons item rest)
  show ?case by (simp add: fun_eq_iff Cons)
qed

lemma columns_loop_ignores:
  "columns_loop (a\<lparr>schema_name := s, table_name := t\<rparr>) td cols = columns_loop a td cols"
proof (induction cols)
  case Nil
  show ?case by (simp add: fun_eq_iff)
next
  case (Cons c rest)
  obtain cn cd where c: "c = (cn, cd)" by (cases c)
  show ?case
    by (simp add: fun_eq_iff c Cons lineage_items_loop_ignores Let_def split: prod.splits
        cong: option.case_cong)
qed

lemma table_row_ignores:
  "table_row (a\<lparr>schema_name := s, table_name := t\<rparr>) td = table_row a td"
  by (simp add: fun_eq_iff table_row_def)

lemma tables_loop_ignores:
  "tables_loop (a\<lparr>schema_name := s, table_name := t\<rparr>) ts = tables_loop a ts"
proof (induction ts)
  case Nil
  show ?case by (simp add: fun_eq_iff)
next
  case (Cons x rest)
  obtain fq td where x: "x = (fq, td)" by (cases x)
  show ?case
    by (simp add: fun_eq_iff x Cons columns_loop_ignores table_row_ignores
        cong: option.case_cong if_cong)
qed

lemma convert_ignores:
  "convert_sql_to_metadata env (a\<lparr>schema_name := s, table_name := t\<rparr>) w = convert_sql_to_metadata env a w"
  by (simp add: convert_sql_to_metadata_def tables_loop_ignores Let_def
      cong: sum.case_cong if_cong)

lemma table_rows_no_columns:
  "td_columns td = Some cols \<Longrightarrow> \<not> truthy_columns cols \<Longrightarrow>
     table_rows a td = [table_base_row a td]"
  by (simp add: table_rows_def)

lemma cell_of_table_base_row:
  "cell_of (table_base_row a td) c =
     (if c = ''filename'' then Val (filename a)
      else if c = ''database_name'' then Val (database_name a)
      else if c = ''cluster_name'' then Val (cluster_name a)
      else if c = ''schema_name'' then Val (get_or_none (td_schema td))
      else if c = ''table_name'' then Val (get_or_none (td_table td))
      else NaN)"
  by (simp add: cell_of_def table_base_row_def)


text \<open>
  C3. When the extractor returns an empty or falsy lineage result for a statement,
  \<open>convert_sql_to_metadata\<close> raises \<^verbatim>\<open>Exception('Column Lineage not found')\<close>, and a run
  that holds this statement fails and writes no file: a run of one statement fails with
  this very exception.
\<close>

theorem lineage_not_found:
  assumes "extract_sql_statements_lineage env stmt d = Inr lineage"
    and "\<not> truthy_lineage lineage"
  shows "(sql_stmt a = stmt \<and> dialect a = d \<longrightarrow>
            convert_sql_to_metadata env a w
              = (Inl (PyException ''Column Lineage not found''), w\<lparr>calls := calls w @ [(stmt, d)]\<rparr>))
       \<and> (run_statement env p stmt \<and> p_dialect p = d \<longrightarrow>
            (\<exists>e. fst (process env p w') = Inl e)
            \<and> written (snd (process env p w')) = written w'
            \<and> (single_statement env p \<longrightarrow>
                 fst (process env p w') = Inl (PyException ''Column Lineage not found'')))"
proof (intro conjI impI)
  assume "sql_stmt a = stmt \<and> dialect a = d"
  with assms convert_falsy [of env a lineage w]
  show "convert_sql_to_metadata env a w
          = (Inl (PyException ''Column Lineage not found''), w\<lparr>calls := calls w @ [(stmt, d)]\<rparr>)"
    by auto
next
  assume run: "run_statement env p stmt \<and> p_dialect p = d"
  have err: "fst (convert_sql_to_metadata env b v) = Inl (PyException ''Column Lineage not found'')"
    if "sql_stmt b = stmt" "dialect b = p_dialect p" for b v
    using that run assms convert_falsy [of env b lineage v] by auto
  from run have r: "run_statement env p stmt" by simp
  note fails = run_statement_fails [OF r err, of w']
  from fails show ex: "\<exists>e. fst (process env p w') = Inl e" by simp
  then obtain e where "fst (process env p w') = Inl e" ..
  then show "written (snd (process env p w')) = written w'"
    by (rule process_failure_written)
  assume "single_statement env p"
  with fails show "fst (process env p w') = Inl (PyException ''Column Lineage not found'')"
    by simp
qed

theorem lineage_not_found_witness:
  "extract_sql_statements_lineage example_env ''-- nothing'' PNone = Inr (Lineage [])
   \<and> \<not> truthy_lineage (Lineage [])
   \<and> run_statement example_env (example_process_args ''-- nothing'') ''-- nothing''
   \<and> single_statement example_env (example_process_args ''-- nothing'')
   \<and> convert_sql_to_metadata example_env (literal_args (example_process_args ''-- nothing'')) init_world
       = (Inl (PyException ''Column Lineage not found''),
          init_world\<lparr>calls := calls init_world @ [(''-- nothing'', PNone)]\<rparr>)
   \<and> fst (process example_env (example_process_args ''-- nothing'') init_world)
       = Inl (PyException ''Column Lineage not found'')
   \<and> written (snd (process example_env (example_process_args ''-- nothing'') init_world))
       = written init_world"
  using lineage_not_found [of example_env "''-- nothing''" PNone "Lineage []"
      "literal_args (example_process_args ''-- nothing'')" init_world
      "example_process_args ''-- nothing''" init_world]
  by (simp add: example_env_def example_extract_def run_statement_def single_statement_def
      example_process_args_def literal_args_def)

text \<open>
  C4. An exception raised by the extractor comes out of \<open>convert_sql_to_metadata\<close> as it
  is, after exactly one call of the extractor; a run that holds the statement fails and
  writes no file, and a run of one statement fails with this exception after that one call.
\<close>

theorem extractor_exception_propagates:
  assumes "extract_sql_statements_lineage env stmt d = Inl e"
  shows "(sql_stmt a = stmt \<and> dialect a = d \<longrightarrow>
            convert_sql_to_metadata env a w = (Inl e, w\<lparr>calls := calls w @ [(stmt, d)]\<rparr>))
       \<and> (run_statement env p stmt \<and> p_dialect p = d \<longrightarrow>
            (\<exists>e'. fst (process env p w') = Inl e')
            \<and> written (snd (process env p w')) = written w'
            \<and> (single_statement env p \<longrightarrow>
                 process env p w' = (Inl e, w'\<lparr>calls := calls w' @ [(stmt, d)]\<rparr>)))"
proof (intro conjI impI)
  assume "sql_stmt a = stmt \<and> dialect a = d"
  with assms convert_raises [of env a e w]
  show "convert_sql_to_metadata env a w = (Inl e, w\<lparr>calls := calls w @ [(stmt, d)]\<rparr>)"
    by auto
next
  assume run: "run_statement env p stmt \<and> p_dialect p = d"
  have err: "fst (convert_sql_to_metadata env b v) = Inl e"
    if "sql_stmt b = stmt" "dialect b = p_dialect p" for b v
    using that run assms convert_raises [of env b e v] by auto
  from run have r: "run_statement env p stmt" by simp
  note fails = run_statement_fails [OF r err, of w']
  from fails show "\<exists>e'. fst (process env p w') = Inl e'" by simp
  then obtain e' where "fst (process env p w') = Inl e'" ..
  then show "written (snd (process env p w')) = written w'"
    by (rule process_failure_written)
  assume "single_statement env p"
  with fails run show "process env p w' = (Inl e, w'\<lparr>calls := calls w' @ [(stmt, d)]\<rparr>)"
    by simp
qed

theorem extractor_exception_propagates_witness:
  "extract_sql_statements_lineage example_env ''SELEC'' PNone = Inl (Raised ''ParseError'' ''SELEC'')
   \<and> run_statement example_env (example_process_args ''SELEC'') ''SELEC''
   \<and> single_statement example_env (example_process_args ''SELEC'')
   \<and> convert_sql_to_metadata example_env (literal_args (example_process_args ''SELEC'')) init_world
       = (Inl (Raised ''ParseError'' ''SELEC''),
          init_world\<lparr>calls := calls init_world @ [(''SELEC'', PNone)]\<rparr>)
   \<and> process example_env (example_process_args ''SELEC'') init_world
       = (Inl (Raised ''ParseError'' ''SELEC''),
          init_world\<lparr>calls := calls init_world @ [(''SELEC'', PNone)]\<rparr>)
   \<and> written (snd (process example_env (example_process_args ''SELEC'') init_world))
       = written init_world"
  using extractor_exception_propagates [of example_env "''SELEC''" PNone "Raised ''ParseError'' ''SELEC''"
      "literal_args (example_process_args ''SELEC'')" init_world
      "example_process_args ''SELEC''" init_world]
  by (simp add: example_env_def example_extract_def run_statement_def single_statement_def
      example_process_args_def literal_args_def)

text \<open>
  C2. When the extractor returns a non-empty lineage result whose dicts hold the keys the
  code subscripts, \<open>convert_sql_to_metadata\<close> returns a table with one row per lineage
  item of every column plus one row per table with no columns.
\<close>

theorem row_count:
  assumes "extract_sql_statements_lineage env (sql_stmt a) (dialect a) = Inr (Lineage ts)"
    and "ts \<noteq> []" and "wf_lineage ts"
  shows "\<exists>df. fst (convert_sql_to_metadata env a w) = Inr df
              \<and> length (data df) = lineage_row_count ts"
  using convert_wf [OF assms, of w]
  by (simp add: data_out_frame length_flat_rows)

theorem row_count_witness:
  "extract_sql_statements_lineage example_env ''SELECT id FROM src'' PNone = Inr (Lineage example_tables)
   \<and> example_tables \<noteq> [] \<and> wf_lineage example_tables
   \<and> lineage_row_count example_tables = 3
   \<and> (\<exists>df. fst (convert_sql_to_metadata example_env
                  (literal_args (example_process_args ''SELECT id FROM src'')) init_world) = Inr df
            \<and> length (data df) = 3)"
proof -
  have ex: "extract_sql_statements_lineage example_env
              (sql_stmt (literal_args (example_process_args ''SELECT id FROM src'')))
              (dialect (literal_args (example_process_args ''SELECT id FROM src'')))
            = Inr (Lineage example_tables)"
    by (simp add: example_env_def example_extract_def literal_args_def example_process_args_def)
  have ne: "example_tables \<noteq> []"
    by (simp add: example_tables_def)
  have wf: "wf_lineage example_tables"
    by (simp add: example_tables_def example_table_t_def example_table_u_def wf_lineage_def
        wf_table_def wf_column_def wf_item_def item_keys_def example_item_a_def example_item_b_def)
  have n: "lineage_row_count example_tables = 3"
    by (simp add: example_tables_def example_table_t_def example_table_u_def lineage_row_count_def
        table_row_count_def column_item_count_def)
  from row_count [OF ex ne wf, of init_world] ex ne wf n show ?thesis
    by (simp add: literal_args_def example_process_args_def)
qed

text \<open>
  C5. Every row of the table that \<open>convert_sql_to_metadata\<close> returns holds, in the
  columns \<^verbatim>\<open>filename\<close>, \<^verbatim>\<open>database_name\<close> and \<^verbatim>\<open>cluster_name\<close>, the values passed
  in as arguments.
\<close>

theorem constant_identifying_fields:
  assumes "fst (convert_sql_to_metadata env a w) = Inr df" and "r \<in> set (data df)"
  shows "cell_at df r ''filename'' = Some (Val (filename a))
       \<and> cell_at df r ''database_name'' = Some (Val (database_name a))
       \<and> cell_at df r ''cluster_name'' = Some (Val (cluster_name a))"
proof -
  from convert_Inr [OF assms(1)] obtain ts where df: "df = out_frame (flat_rows a ts)"
    by blast
  from assms(2) obtain d where d: "d \<in> set (flat_rows a ts)"
    and r: "r = map (cell_of d) (out_columns (flat_rows a ts))"
    by (auto simp: df data_out_frame)
  from flat_rows_identifying [OF d]
  have "cell_of d ''filename'' = Val (filename a)"
    and "cell_of d ''database_name'' = Val (database_name a)"
    and "cell_of d ''cluster_name'' = Val (cluster_name a)"
    by (auto simp: cell_of_def)
  moreover have "''filename'' \<in> set (out_columns (flat_rows a ts))"
    and "''database_name'' \<in> set (out_columns (flat_rows a ts))"
    and "''cluster_name'' \<in> set (out_columns (flat_rows a ts))"
    by (simp_all add: metadata_in_out_columns metadata_def)
  ultimately show ?thesis
    unfolding df r by (simp add: cell_at_out_frame)
qed

theorem constant_identifying_fields_witness:
  "fst (convert_sql_to_metadata example_env example_args init_world) = Inr example_frame
   \<and> example_row_u \<in> set (data example_frame)
   \<and> cell_at example_frame example_row_u ''filename'' = Some (Val PNone)
   \<and> cell_at example_frame example_row_u ''database_name'' = Some (Val (PStr ''hive''))
   \<and> cell_at example_frame example_row_u ''cluster_name'' = Some (Val (PStr ''cobra''))"
proof -
  have r: "example_row_u \<in> set (data example_frame)"
    by (simp add: example_frame_def)
  from constant_identifying_fields [OF example_convert r] example_convert r show ?thesis
    by (simp add: example_args_def literal_args_def example_process_args_def)
qed

text \<open>
  C10. The arguments \<^verbatim>\<open>schema_name\<close> and \<^verbatim>\<open>table_name\<close> of \<open>convert_sql_to_metadata\<close>
  have no effect on what it returns, and in every row of the returned table the columns
  \<^verbatim>\<open>schema_name\<close> and \<^verbatim>\<open>table_name\<close> hold the schema and the table of one of the tables
  of the lineage result (\<^verbatim>\<open>None\<close> when the key is absent).
\<close>

theorem caller_table_and_schema_unused:
  "convert_sql_to_metadata env (a\<lparr>schema_name := s, table_name := t\<rparr>) w
     = convert_sql_to_metadata env a w
   \<and> (fst (convert_sql_to_metadata env a w) = Inr df \<longrightarrow>
        (\<exists>ts. extract_sql_statements_lineage env (sql_stmt a) (dialect a) = Inr (Lineage ts)
           \<and> (\<forall>r \<in> set (data df). \<exists>td \<in> snd ` set ts.
                  cell_at df r ''schema_name'' = Some (Val (get_or_none (td_schema td)))
                \<and> cell_at df r ''table_name'' = Some (Val (get_or_none (td_table td))))))"
proof (intro conjI impI)
  show "convert_sql_to_metadata env (a\<lparr>schema_name := s, table_name := t\<rparr>) w
          = convert_sql_to_metadata env a w"
    by (rule convert_ignores)
next
  assume "fst (convert_sql_to_metadata env a w) = Inr df"
  from convert_Inr [OF this] obtain ts
    where ex: "extract_sql_statements_lineage env (sql_stmt a) (dialect a) = Inr (Lineage ts)"
      and df: "df = out_frame (flat_rows a ts)"
    by blast
  have "\<exists>td \<in> snd ` set ts.
            cell_at df r ''schema_name'' = Some (Val (get_or_none (td_schema td)))
          \<and> cell_at df r ''table_name'' = Some (Val (get_or_none (td_table td)))"
    if "r \<in> set (data df)" for r
  proof -
    from that obtain d where d: "d \<in> set (flat_rows a ts)"
      and r: "r = map (cell_of d) (out_columns (flat_rows a ts))"
      by (auto simp: df data_out_frame)
    from flat_rows_identifying [OF d] obtain td where td: "td \<in> snd ` set ts"
      and m: "map_of d ''schema_name'' = Some (get_or_none (td_schema td))"
        "map_of d ''table_name'' = Some (get_or_none (td_table td))"
      by blast
    from m have "cell_of d ''schema_name'' = Val (get_or_none (td_schema td))"
      and "cell_of d ''table_name'' = Val (get_or_none (td_table td))"
      by (simp_all add: cell_of_def)
    moreover have "''schema_name'' \<in> set (out_columns (flat_rows a ts))"
      and "''table_name'' \<in> set (out_columns (flat_rows a ts))"
      by (simp_all add: metadata_in_out_columns metadata_def)
    ultimately have "cell_at df r ''schema_name'' = Some (Val (get_or_none (td_schema td)))
          \<and> cell_at df r ''table_name'' = Some (Val (get_or_none (td_table td)))"
      unfolding df r by (simp add: cell_at_out_frame)
    with td show ?thesis by blast
  qed
  with ex show "\<exists>ts. extract_sql_statements_lineage env (sql_stmt a) (dialect a) = Inr (Lineage ts)
           \<and> (\<forall>r \<in> set (data df). \<exists>td \<in> snd ` set ts.
                  cell_at df r ''schema_name'' = Some (Val (get_or_none (td_schema td)))
                \<and> cell_at df r ''table_name'' = Some (Val (get_or_none (td_table td))))"
    by blast
qed

theorem caller_table_and_schema_unused_witness:
  "fst (convert_sql_to_metadata example_env example_args init_world) = Inr example_frame
   \<and> convert_sql_to_metadata example_env
        (example_args\<lparr>schema_name := PStr ''other_schema'', table_name := PStr ''other_table''\<rparr>)
        init_world
      = convert_sql_to_metadata example_env example_args init_world
   \<and> (\<exists>ts. extract_sql_statements_lineage example_env (sql_stmt example_args) (dialect example_args)
              = Inr (Lineage ts)
         \<and> (\<forall>r \<in> set (data example_frame). \<exists>td \<in> snd ` set ts.
                cell_at example_frame r ''schema_name'' = Some (Val (get_or_none (td_schema td)))
              \<and> cell_at example_frame r ''table_name'' = Some (Val (get_or_none (td_table td)))))"
  using caller_table_and_schema_unused [where env = example_env and a = example_args
      and s = "PStr ''other_schema''" and t = "PStr ''other_table''" and w = init_world
      and df = example_frame] example_convert
  by simp

text \<open>
  C6. For a table of the lineage result whose \<^verbatim>\<open>columns\<close> entry is empty or \<^verbatim>\<open>None\<close>,
  \<open>convert_sql_to_metadata\<close> emits exactly one row, between the rows of the tables before
  it and the rows of the tables after it. The row holds the arguments \<^verbatim>\<open>filename\<close>,
  \<^verbatim>\<open>database_name\<close> and \<^verbatim>\<open>cluster_name\<close> and the schema and table of the lineage result,
  and no value in any other column.
\<close>

theorem table_without_columns:
  assumes "extract_sql_statements_lineage env (sql_stmt a) (dialect a)
             = Inr (Lineage (pre @ (fq, td) # post))"
    and "wf_lineage (pre @ (fq, td) # post)"
    and "td_columns td = Some cols" and "\<not> truthy_columns cols"
  shows "\<exists>df rs_pre r rs_post sch tab.
           fst (convert_sql_to_metadata env a w) = Inr df
         \<and> data df = rs_pre @ [r] @ rs_post
         \<and> length rs_pre = lineage_row_count pre
         \<and> length rs_post = lineage_row_count post
         \<and> td_schema td = Some sch \<and> td_table td = Some tab
         \<and> set (columns metadata) \<subseteq> set (columns df)
         \<and> (\<forall>c \<in> set (columns df).
               cell_at df r c = Some (if c = ''filename'' then Val (filename a)
                                      else if c = ''database_name'' then Val (database_name a)
                                      else if c = ''cluster_name'' then Val (cluster_name a)
                                      else if c = ''schema_name'' then Val sch
                                      else if c = ''table_name'' then Val tab
                                      else NaN))"
proof -
  let ?ts = "pre @ (fq, td) # post"
  let ?ds = "flat_rows a ?ts"
  let ?row = "\<lambda>d. map (cell_of d) (out_columns ?ds)"
  have conv: "fst (convert_sql_to_metadata env a w) = Inr (out_frame ?ds)"
    using convert_wf [OF assms(1) _ assms(2)] by simp
  have "wf_table td"
    using assms(2) by (simp add: wf_lineage_def)
  with assms(3,4) obtain sch tab where st: "td_schema td = Some sch" "td_table td = Some tab"
    by (auto simp: wf_table_def)
  have ds: "?ds = flat_rows a pre @ [table_base_row a td] @ flat_rows a post"
    using table_rows_no_columns [OF assms(3,4), of a]
    by (simp add: flat_rows_def)
  have data: "data (out_frame ?ds)
                = map ?row (flat_rows a pre) @ [?row (table_base_row a td)] @ map ?row (flat_rows a post)"
    unfolding data_out_frame by (subst ds) simp
  have cells: "\<forall>c \<in> set (columns (out_frame ?ds)).
      cell_at (out_frame ?ds) (?row (table_base_row a td)) c
        = Some (if c = ''filename'' then Val (filename a)
                else if c = ''database_name'' then Val (database_name a)
                else if c = ''cluster_name'' then Val (cluster_name a)
                else if c = ''schema_name'' then Val sch
                else if c = ''table_name'' then Val tab
                else NaN)"
    by (simp add: cell_at_out_frame columns_out_frame cell_of_table_base_row st get_or_none_def)
  have sub: "set (columns metadata) \<subseteq> set (columns (out_frame ?ds))"
    by (auto simp: columns_out_frame metadata_in_out_columns)
  show ?thesis
    apply (rule exI [of _ "out_frame ?ds"])
    apply (rule exI [of _ "map ?row (flat_rows a pre)"])
    apply (rule exI [of _ "?row (table_base_row a td)"])
    apply (rule exI [of _ "map ?row (flat_rows a post)"])
    apply (rule exI [of _ sch])
    apply (rule exI [of _ tab])
    using conv data st sub cells
    apply (simp only: length_map length_flat_rows)
    done
qed

theorem table_without_columns_witness:
  "extract_sql_statements_lineage example_env (sql_stmt example_args) (dialect example_args)
     = Inr (Lineage ([(''db.t'', example_table_t)] @ (''db.u'', example_table_u) # []))
   \<and> wf_lineage ([(''db.t'', example_table_t)] @ (''db.u'', example_table_u) # [])
   \<and> td_columns example_table_u = Some (Columns [])
   \<and> \<not> truthy_columns (Columns [])
   \<and> lineage_row_count [(''db.t'', example_table_t)] = 2
   \<and> (\<exists>df rs_pre r rs_post.
         fst (convert_sql_to_metadata example_env example_args init_world) = Inr df
       \<and> data df = rs_pre @ [r] @ rs_post
       \<and> length rs_pre = 2 \<and> length rs_post = 0
       \<and> set (columns metadata) \<subseteq> set (columns df)
       \<and> (\<forall>c \<in> set (columns df).
             cell_at df r c = Some (if c = ''filename'' then Val PNone
                                    else if c = ''database_name'' then Val (PStr ''hive'')
                                    else if c = ''cluster_name'' then Val (PStr ''cobra'')
                                    else if c = ''schema_name'' then Val (PStr ''db'')
                                    else if c = ''table_name'' then Val (PStr ''u'')
                                    else NaN)))"
proof -
  have ex: "extract_sql_statements_lineage example_env (sql_stmt example_args) (dialect example_args)
     = Inr (Lineage ([(''db.t'', example_table_t)] @ (''db.u'', example_table_u) # []))"
    by (simp add: example_env_def example_extract_def example_args_def literal_args_def
        example_process_args_def example_tables_def)
  have wf: "wf_lineage ([(''db.t'', example_table_t)] @ (''db.u'', example_table_u) # [])"
    by (simp add: example_table_t_def example_table_u_def wf_lineage_def
        wf_table_def wf_column_def wf_item_def item_keys_def example_item_a_def example_item_b_def)
  have cols: "td_columns example_table_u = Some (Columns [])"
    by (simp add: example_table_u_def)
  have falsy: "\<not> truthy_columns (Columns [])"
    by simp
  have n: "lineage_row_count [(''db.t'', example_table_t)] = 2"
    by (simp add: example_table_t_def lineage_row_count_def table_row_count_def
        column_item_count_def)
  have args: "filename example_args = PNone" "database_name example_args = PStr ''hive''"
    "cluster_name example_args = PStr ''cobra''"
    by (simp_all add: example_args_def literal_args_def example_process_args_def)
  have u: "td_schema example_table_u = Some (PStr ''db'')" "td_table example_table_u = Some (PStr ''u'')"
    by (simp_all add: example_table_u_def)
  from table_without_columns [OF ex wf cols falsy, of init_world]
  obtain df rs_pre r rs_post sch tab where
    "fst (convert_sql_to_metadata example_env example_args init_world) = Inr df"
    "data df = rs_pre @ [r] @ rs_post"
    "length rs_pre = lineage_row_count [(''db.t'', example_table_t)]"
    "length rs_post = lineage_row_count []"
    "td_schema example_table_u = Some sch" "td_table example_table_u = Some tab"
    "set (columns metadata) \<subseteq> set (columns df)"
    "\<forall>c \<in> set (columns df).
       cell_at df r c = Some (if c = ''filename'' then Val (filename example_args)
                              else if c = ''database_name'' then Val (database_name example_args)
                              else if c = ''cluster_name'' then Val (cluster_name example_args)
                              else if c = ''schema_name'' then Val sch
                              else if c = ''table_name'' then Val tab
                              else NaN)"
    by blast
  then have "\<exists>df rs_pre r rs_post.
         fst (convert_sql_to_metadata example_env example_args init_world) = Inr df
       \<and> data df = rs_pre @ [r] @ rs_post
       \<and> length rs_pre = 2 \<and> length rs_post = 0
       \<and> set (columns metadata) \<subseteq> set (columns df)
       \<and> (\<forall>c \<in> set (columns df).
             cell_at df r c = Some (if c = ''filename'' then Val PNone
                                    else if c = ''database_name'' then Val (PStr ''hive'')
                                    else if c = ''cluster_name'' then Val (PStr ''cobra'')
                                    else if c = ''schema_name'' then Val (PStr ''db'')
                                    else if c = ''table_name'' then Val (PStr ''u'')
                                    else NaN))"
    unfolding n args u by (auto simp: lineage_row_count_def)
  with ex wf cols falsy n show ?thesis
    by blast
qed

end
